theory Spec2Isabelle
  imports Main
begin

section \<open>JavaScript values and the primitive operations the component uses\<close>

text \<open>
  The booking component reads the fields of the API's records as untyped values
  (\<open>slot: any\<close>). A field is modelled by the primitive value it holds; a field that is
  missing from the record reads as \<open>JUndefined\<close>. Numbers are the integers (the interface
  delivers an integer hour); \<open>JNaN\<close> is the not-a-number that arithmetic on \<open>undefined\<close>
  produces. Strings are lists of code units.

  The code computes with doubles. An integer of magnitude below \<open>2^53\<close> is a double, its
  successor and its decimal numeral are those of the integer, and there the operations
  below are the code's. Beyond that magnitude the code's sum is rounded and, from
  \<open>10^21\<close> on, its numeral has an exponent; such numbers, and fractions, are outside the
  model.
\<close>

datatype jsval = JUndefined | JNull | JBool bool | JNum int | JNaN | JStr string

definition digit :: "nat \<Rightarrow> char" where
  "digit n = ''0123456789'' ! n"

fun dec_nat :: "nat \<Rightarrow> string" where
  "dec_nat n = (if n < 10 then [digit n] else dec_nat (n div 10) @ [digit (n mod 10)])"

declare dec_nat.simps [simp del]

definition dec_int :: "int \<Rightarrow> string" where
  "dec_int i = (if i < 0 then CHR ''-'' # dec_nat (nat (- i)) else dec_nat (nat i))"

text \<open>\<open>String(v)\<close> and the interpolation \<open>${v}\<close> of a template literal.\<close>

fun ToString :: "jsval \<Rightarrow> string" where
  "ToString JUndefined = ''undefined''"
| "ToString JNull = ''null''"
| "ToString (JBool b) = (if b then ''true'' else ''false'')"
| "ToString (JNum n) = dec_int n"
| "ToString JNaN = ''NaN''"
| "ToString (JStr s) = s"

text \<open>\<open>v + 1\<close>: numeric addition, except that a string operand concatenates.\<close>

fun plus_one :: "jsval \<Rightarrow> jsval" where
  "plus_one JUndefined = JNaN"
| "plus_one JNull = JNum 1"
| "plus_one (JBool b) = JNum (if b then 2 else 1)"
| "plus_one (JNum n) = JNum (n + 1)"
| "plus_one JNaN = JNaN"
| "plus_one (JStr s) = JStr (s @ ''1'')"

text \<open>\<open>s.padStart(n, c)\<close> with a one-character pad string.\<close>

definition padStart :: "nat \<Rightarrow> char \<Rightarrow> string \<Rightarrow> string" where
  "padStart n c s = replicate (n - length s) c @ s"

text \<open>\<open>!!v\<close>\<close>

fun truthy :: "jsval \<Rightarrow> bool" where
  "truthy JUndefined = False"
| "truthy JNull = False"
| "truthy (JBool b) = b"
| "truthy (JNum n) = (n \<noteq> 0)"
| "truthy JNaN = False"
| "truthy (JStr s) = (s \<noteq> [])"

section \<open>The response transformation\<close>

record slot =
  date :: jsval
  hour :: jsval
  booked :: jsval

text \<open>
  A member of the collection is an object, read through these three properties, or
  \<open>null\<close>, of which no property can be read. (A member that is a number, a string or a
  boolean reads like an object without any of the three properties.)
\<close>

datatype member = Null | Object slot

text \<open>
  \<open>booked_slots\<close> is \<open>None\<close> when the body has no such property (or a falsy one), and
  otherwise the members in the order in which \<open>Object.values\<close> enumerates them. The body
  itself, \<open>response.data\<close>, is \<open>None\<close> when it is \<open>null\<close>.
\<close>

record apiData =
  booked_slots :: "member list option"

datatype js_error = TypeError | RangeError

type_synonym table = "string \<rightharpoonup> jsval"

definition startHour :: "slot \<Rightarrow> string" where
  "startHour slot = padStart 2 CHR ''0'' (ToString (hour slot))"

definition endHour :: "slot \<Rightarrow> string" where
  "endHour slot = padStart 2 CHR ''0'' (ToString (plus_one (hour slot)))"

definition timeRange :: "slot \<Rightarrow> string" where
  "timeRange slot = startHour slot @ '':00 - '' @ endHour slot @ '':00''"

definition key :: "slot \<Rightarrow> string" where
  "key slot = ToString (date slot) @ ''_'' @ timeRange slot"

text \<open>
  The \<open>forEach\<close> loop over the members, writing into the table \<open>converted\<close>. Reading
  \<open>slot.hour\<close> of a member that is \<open>null\<close> throws, and the loop ends there.
\<close>

fun forEach :: "table \<Rightarrow> member list \<Rightarrow> js_error + table" where
  "forEach converted [] = Inr converted"
| "forEach converted (Null # rest) = Inl TypeError"
| "forEach converted (Object slot # rest) = forEach (converted(key slot \<mapsto> booked slot)) rest"

definition convertApiResponse :: "apiData option \<Rightarrow> js_error + table" where
  "convertApiResponse apiData =
     (case apiData of
        None \<Rightarrow> Inl TypeError
      | Some body \<Rightarrow>
          (case booked_slots body of
             None \<Rightarrow> Inr Map.empty
           | Some slots \<Rightarrow> forEach Map.empty slots))"

section \<open>Calendar days and local time\<close>

text \<open>
  The day objects come from the dayjs library, which wraps a JavaScript \<open>Date\<close> and reads
  it in local time. A valid one is modelled by its wall-clock time: the milliseconds that
  the local clock shows, counted from 00:00 on 1970-01-01 in the proleptic Gregorian
  calendar, so that day number \<open>d\<close> lasts from \<open>d * 86400000\<close> up to the next multiple.
  \<open>Day d\<close> is 00:00 on day \<open>d\<close>. \<open>InvalidDate\<close> is the object that dayjs builds from a
  string it cannot parse, such as the empty string of a cleared date picker.
\<close>

definition MILLISECONDS_A_DAY :: int where
  "MILLISECONDS_A_DAY = 86400000"

datatype dayjs = At int | InvalidDate

definition Day :: "int \<Rightarrow> dayjs" where
  "Day d = At (d * MILLISECONDS_A_DAY)"

text \<open>
  ECMAScript times reach 100,000,000 days to either side of the epoch; a time beyond that
  is invalid. (The bound is taken on the wall-clock time; the offset from UTC, less than a
  day, is left out of it.)
\<close>

definition in_range :: "int \<Rightarrow> bool" where
  "in_range w = (- 8640000000000000 \<le> w \<and> w \<le> 8640000000000000)"

definition mk :: "int \<Rightarrow> dayjs" where
  "mk w = (if in_range w then At w else InvalidDate)"

text \<open>
  The local time zone acts where a \<open>Date\<close> is built from a wall-clock time. A time that
  the local clock never shows, because a change to daylight saving time skips it, becomes
  the time that the clock shows instead, later by the length of the gap. A zone is this
  map on wall-clock times; it is the identity wherever no time is skipped.
\<close>

type_synonym zone = "int \<Rightarrow> int"

text \<open>A zone whose clock skips nothing.\<close>

definition UTC :: zone where
  "UTC w = w"

text \<open>
  A zone whose clock, on reaching the wall-clock time \<open>from\<close>, is put forward by \<open>len\<close>
  milliseconds. The clock of Africa/Cairo was put forward from 00:00 to 01:00 on
  2024-04-26, which is day 19839: \<open>skip (19839 * 86400000) 3600000\<close>.
\<close>

definition skip :: "int \<Rightarrow> int \<Rightarrow> zone" where
  "skip from len w = (if from \<le> w \<and> w < from + len then w + len else w)"

text \<open>
  \<open>dayjs(s)\<close> for a date string \<open>s\<close> of the form \<open>YYYY-MM-DD\<close> that names day \<open>d\<close>:
  the \<open>Date\<close> built from 00:00 of that day in local time.
\<close>

definition dayjs_date :: "zone \<Rightarrow> int \<Rightarrow> dayjs" where
  "dayjs_date zone d = mk (zone (d * MILLISECONDS_A_DAY))"

text \<open>\<open>Utils.a\<close> of dayjs on the quotient \<open>n / d\<close>: rounding toward zero.\<close>

definition absFloor :: "int \<Rightarrow> int \<Rightarrow> int" where
  "absFloor n d = (if n < 0 then - ((- n) div d) else n div d)"

text \<open>
  \<open>a.diff(b, 'day')\<close>, \<open>None\<close> for NaN. dayjs takes the milliseconds between the two
  instants, adds the change of the UTC offset between them, divides by the milliseconds of
  a day and rounds toward zero. With UTC offsets of whole quarter hours, to which dayjs
  rounds them, the dividend is the difference of the two wall-clock times. (The division is
  exact on the doubles of the code while the difference stays below \<open>2^53\<close>.)
\<close>

fun diff :: "dayjs \<Rightarrow> dayjs \<Rightarrow> int option" where
  "diff (At a) (At b) = Some (absFloor (a - b) MILLISECONDS_A_DAY)"
| "diff _ _ = None"

text \<open>
  \<open>a.add(n, 'day')\<close>: the date of the month is set \<open>n\<close> days on and the time of day is
  kept, which gives a wall-clock time for the zone to resolve.
\<close>

fun add :: "zone \<Rightarrow> dayjs \<Rightarrow> nat \<Rightarrow> dayjs" where
  "add zone (At w) n = mk (zone (w + int n * MILLISECONDS_A_DAY))"
| "add zone InvalidDate n = InvalidDate"

text \<open>Year, month and day of the month of a day number.\<close>

definition civil :: "int \<Rightarrow> int \<times> int \<times> int" where
  "civil d =
     (let z = d + 719468;
          era = z div 146097;
          doe = z mod 146097;
          yoe = (doe - doe div 1460 + doe div 36524 - doe div 146096) div 365;
          doy = doe - (365 * yoe + yoe div 4 - yoe div 100);
          mp = (5 * doy + 2) div 153;
          dd = doy - (153 * mp + 2) div 5 + 1;
          m = (if mp < 10 then mp + 3 else mp - 9);
          y = yoe + era * 400 + (if m \<le> 2 then 1 else 0)
      in (y, m, dd))"

text \<open>\<open>d.format("YYYY-MM-DD")\<close>\<close>

fun format_YYYY_MM_DD :: "dayjs \<Rightarrow> string" where
  "format_YYYY_MM_DD (At w) =
     (case civil (w div MILLISECONDS_A_DAY) of (y, m, dd) \<Rightarrow>
        padStart 4 CHR ''0'' (dec_int y) @ ''-'' @ padStart 2 CHR ''0'' (dec_int m)
          @ ''-'' @ padStart 2 CHR ''0'' (dec_int dd))"
| "format_YYYY_MM_DD InvalidDate = ''Invalid Date''"

text \<open>Calendar order of two days.\<close>

fun before :: "dayjs \<Rightarrow> dayjs \<Rightarrow> bool" where
  "before (At a) (At b) = (a div MILLISECONDS_A_DAY < b div MILLISECONDS_A_DAY)"
| "before _ _ = False"

section \<open>The derived day sequence\<close>

text \<open>
  \<open>Array.from({ length: len }, (_, index) => f index)\<close>. The length is first brought
  into the range of array lengths (NaN and negative numbers become 0); creating an array
  of more than \<open>2^32 - 1\<close> elements throws.
\<close>

definition ToLength :: "int option \<Rightarrow> int" where
  "ToLength len = (case len of None \<Rightarrow> 0 | Some l \<Rightarrow> max 0 (min l 9007199254740991))"

definition Array_from :: "int option \<Rightarrow> (nat \<Rightarrow> 'a) \<Rightarrow> js_error + 'a list" where
  "Array_from len f =
     (let n = ToLength len
      in if n > 4294967295 then Inl RangeError else Inr (map f [0..<nat n]))"

text \<open>
  The day sequence of the grid; \<open>start\<close> and \<open>endDay\<close> are \<open>dayjs(startDate)\<close> and
  \<open>dayjs(endDate)\<close>.
\<close>

definition dates :: "zone \<Rightarrow> dayjs \<Rightarrow> dayjs \<Rightarrow> js_error + dayjs list" where
  "dates zone start endDay =
     (let totalDays = map_option (\<lambda>n. n + 1) (diff endDay start)
      in Array_from totalDays (\<lambda>index. add zone start index))"

section \<open>The time-slot list\<close>

definition times :: "string list" where
  "times =
    [''05:00 - 06:00'',
     ''06:00 - 07:00'',
     ''07:00 - 08:00'',
     ''08:00 - 09:00'',
     ''09:00 - 10:00'',
     ''10:00 - 11:00'',
     ''11:00 - 12:00'',
     ''14:00 - 15:00'',
     ''15:00 - 16:00'',
     ''16:00 - 17:00'',
     ''17:00 - 18:00'',
     ''18:00 - 19:00'',
     ''19:00 - 20:00'',
     ''20:00 - 21:00'',
     ''21:00 - 22:00'',
     ''22:00 - 23:00'',
     ''23:00 - 00:00'',
     ''00:00 - 01:00'',
     ''01:00 - 02:00'',
     ''02:00 - 03:00'',
     ''03:00 - 04:00'',
     ''04:00 - 05:00'']"

section \<open>Component state, fetching and rendering\<close>

record state =
  startDate :: string
  endDate :: string
  bookings :: table
  loading :: bool
  error :: "string option"

text \<open>The state on mount; \<open>today\<close> is \<open>dayjs()\<close>, the current time.\<close>

definition initial :: "zone \<Rightarrow> dayjs \<Rightarrow> state" where
  "initial zone today =
     \<lparr>startDate = format_YYYY_MM_DD today,
      endDate = format_YYYY_MM_DD (add zone today 6),
      bookings = Map.empty,
      loading = False,
      error = None\<rparr>"

text \<open>
  What awaiting \<open>axios.get\<close> yields: the promise rejects (network error, or a status
  outside 2xx), or it resolves with the parsed body.
\<close>

datatype response = Rejected | Resolved "apiData option"

text \<open>The \<open>catch\<close> block.\<close>

definition catch :: "state \<Rightarrow> state" where
  "catch st = st\<lparr>error := Some ''Gagal memuat data booking''\<rparr>"

text \<open>
  One fetch, from the call to the end of the \<open>finally\<close> block. The \<open>try\<close> block holds
  the request and the transformation, so an exception of either reaches \<open>catch\<close>.
\<close>

definition fetchBookings :: "response \<Rightarrow> state \<Rightarrow> state" where
  "fetchBookings r st =
     (let st1 = st\<lparr>loading := True, error := None\<rparr>;
          st2 = (case r of
                   Rejected \<Rightarrow> catch st1
                 | Resolved data \<Rightarrow>
                     (case convertApiResponse data of
                        Inl err \<Rightarrow> catch st1
                      | Inr convertedData \<Rightarrow> st1\<lparr>bookings := convertedData\<rparr>))
      in st2\<lparr>loading := False\<rparr>)"

definition getBookingKey :: "dayjs \<Rightarrow> string \<Rightarrow> string" where
  "getBookingKey d time = format_YYYY_MM_DD d @ ''_'' @ time"

text \<open>
  \<open>bookings[k]\<close>: a key that is absent reads as \<open>undefined\<close>. (A key that is looked up
  starts with a formatted day and a key that is stored ends in \<open>:00\<close>, so neither names
  a property that every object inherits.)
\<close>

definition getBookingStatus :: "state \<Rightarrow> dayjs \<Rightarrow> string \<Rightarrow> jsval" where
  "getBookingStatus st d time =
     (case bookings st (getBookingKey d time) of None \<Rightarrow> JUndefined | Some v \<Rightarrow> v)"

definition isBooked :: "state \<Rightarrow> dayjs \<Rightarrow> string \<Rightarrow> bool" where
  "isBooked st d time = truthy (getBookingStatus st d time)"

datatype styling = Reserved | Available

definition cell :: "state \<Rightarrow> dayjs \<Rightarrow> string \<Rightarrow> styling" where
  "cell st d time = (if isBooked st d time then Reserved else Available)"

text \<open>The table body: one row per time slot, one cell per day of the sequence.\<close>

definition grid :: "state \<Rightarrow> dayjs list \<Rightarrow> styling list list" where
  "grid st ds = map (\<lambda>time. map (\<lambda>d. cell st d time) ds) times"

section \<open>The record format in the words of the specification\<close>

text \<open>
  A record is well formed when it carries what the interface promises: a date string and
  an integer hour from 0 to 23.
\<close>

definition well_formed :: "slot \<Rightarrow> bool" where
  "well_formed slot =
     (case date slot of
        JStr d \<Rightarrow> (case hour slot of JNum h \<Rightarrow> 0 \<le> h \<and> h \<le> 23 | _ \<Rightarrow> False)
      | _ \<Rightarrow> False)"

text \<open>The two-digit, zero-padded numeral \<open>HH\<close> and the key \<open>{date}_{HH:00 - HH:00}\<close>.\<close>

definition HH :: "int \<Rightarrow> string" where
  "HH n = [digit (nat n div 10), digit (nat n mod 10)]"

definition spec_key :: "string \<Rightarrow> int \<Rightarrow> string" where
  "spec_key d h = d @ ''_'' @ HH h @ '':00 - '' @ HH (h + 1) @ '':00''"

section \<open>Properties of the loop\<close>

text \<open>The loop throws exactly when a member is \<open>null\<close>.\<close>

lemma forEach_throws: "Null \<in> set ms \<Longrightarrow> forEach m ms = Inl TypeError"
  by (induction m ms rule: forEach.induct) auto

lemma forEach_objects: "\<exists>t. forEach m (map Object slots) = Inr t"
  by (induction slots arbitrary: m) auto

lemma forEach_Inr: "forEach m ms = Inr t \<Longrightarrow> \<exists>slots. ms = map Object slots"
proof (induction m ms rule: forEach.induct)
  case (1 converted)
  show ?case by simp
next
  case (2 converted rest)
  then show ?case by simp
next
  case (3 converted slot rest)
  from "3.prems" have "forEach (converted(key slot \<mapsto> booked slot)) rest = Inr t"
    by (simp only: forEach.simps)
  then have "\<exists>slots. rest = map Object slots" by (rule "3.IH")
  then obtain slots where "rest = map Object slots" by blast
  then have "Object slot # rest = map Object (slot # slots)" by simp
  then show ?case by (rule exI)
qed

lemma dom_forEach:
  "forEach m (map Object slots) = Inr t \<Longrightarrow> dom t = dom m \<union> key ` set slots"
  by (induction slots arbitrary: m) auto

lemma forEach_other:
  "forEach m (map Object slots) = Inr t \<Longrightarrow> k \<notin> key ` set slots \<Longrightarrow> t k = m k"
  by (induction slots arbitrary: m) auto

lemma forEach_stored:
  "forEach m (map Object slots) = Inr t \<Longrightarrow> distinct (map key slots) \<Longrightarrow> s \<in> set slots
   \<Longrightarrow> t (key s) = Some (booked s)"
proof (induction slots arbitrary: m)
  case Nil
  then show ?case by simp
next
  case (Cons a rest)
  from Cons.prems(1) have run: "forEach (m(key a \<mapsto> booked a)) (map Object rest) = Inr t"
    by simp
  show ?case
  proof (cases "s \<in> set rest")
    case True
    from Cons.prems(2) have "distinct (map key rest)" by simp
    with run show ?thesis using True by (rule Cons.IH)
  next
    case False
    with Cons.prems have eq: "s = a" and fresh: "key a \<notin> key ` set rest" by auto
    from run fresh have "t (key a) = (m(key a \<mapsto> booked a)) (key a)"
      by (rule forEach_other)
    with eq show ?thesis by simp
  qed
qed

text \<open>
  Running the loop from a table \<open>m\<close> is overriding \<open>m\<close> with what the loop builds from
  the empty table; hence a second run over the same members changes nothing.
\<close>

lemma forEach_override:
  "forEach Map.empty (map Object slots) = Inr t \<Longrightarrow> forEach m (map Object slots) = Inr (m ++ t)"
proof (induction slots arbitrary: m t)
  case Nil
  then show ?case by auto
next
  case (Cons a rest)
  obtain u where u: "forEach Map.empty (map Object rest) = Inr u"
    using forEach_objects by blast
  then have "forEach [key a \<mapsto> booked a] (map Object rest) = Inr ([key a \<mapsto> booked a] ++ u)"
    by (rule Cons.IH)
  with Cons.prems have t: "t = [key a \<mapsto> booked a] ++ u" by simp
  from u have "forEach (m(key a \<mapsto> booked a)) (map Object rest) = Inr (m(key a \<mapsto> booked a) ++ u)"
    by (rule Cons.IH)
  moreover have "m(key a \<mapsto> booked a) ++ u = m ++ t"
    unfolding t by (rule ext) (simp add: map_add_def split: option.splits)
  ultimately show ?case by simp
qed

lemma forEach_again:
  assumes "forEach m ms = Inr t"
  shows "forEach t ms = Inr t"
proof -
  from assms obtain slots where ms: "ms = map Object slots"
    using forEach_Inr by blast
  obtain u where u: "forEach Map.empty (map Object slots) = Inr u"
    using forEach_objects by blast
  from u have "forEach m (map Object slots) = Inr (m ++ u)" by (rule forEach_override)
  with assms ms have t: "t = m ++ u" by simp
  from u have "forEach t (map Object slots) = Inr (t ++ u)" by (rule forEach_override)
  moreover have "t ++ u = t"
    unfolding t by (rule ext) (simp add: map_add_def split: option.splits)
  ultimately show ?thesis using ms by simp
qed

section \<open>The keys of the lookup table\<close>

lemma digit_inj: "a < 10 \<Longrightarrow> b < 10 \<Longrightarrow> digit a = digit b \<Longrightarrow> a = b"
proof -
  assume a: "a < 10" and b: "b < 10" and eq: "digit a = digit b"
  have d: "distinct ''0123456789''" by simp
  have "length ''0123456789'' = 10" by simp
  with a b eq d show "a = b"
    unfolding digit_def by (metis nth_eq_iff_index_eq)
qed

lemma padStart_dec_nat:
  assumes "n < 100"
  shows "padStart 2 CHR ''0'' (dec_nat n) = [digit (n div 10), digit (n mod 10)]"
proof (cases "n < 10")
  case True
  then show ?thesis by (simp add: dec_nat.simps [of n] padStart_def digit_def)
next
  case False
  with assms have "n div 10 < 10" by simp
  with False show ?thesis
    by (simp add: dec_nat.simps [of n] dec_nat.simps [of "n div 10"] padStart_def)
qed

lemma padStart_dec_int:
  assumes "0 \<le> h" "h < 100"
  shows "padStart 2 CHR ''0'' (dec_int h) = HH h"
  using assms padStart_dec_nat [of "nat h"] by (simp add: dec_int_def HH_def)

lemma key_well_formed:
  assumes "date s = JStr d" "hour s = JNum h" "0 \<le> h" "h \<le> 23"
  shows "key s = spec_key d h"
  using assms padStart_dec_int [of h] padStart_dec_int [of "h + 1"]
  by (simp add: key_def timeRange_def startHour_def endHour_def spec_key_def)

lemma HH_inj:
  assumes "0 \<le> a" "a < 100" "0 \<le> b" "b < 100" "HH a = HH b"
  shows "a = b"
proof -
  from assms have "nat a div 10 = nat b div 10" "nat a mod 10 = nat b mod 10"
    by (auto simp add: HH_def intro!: digit_inj)
  then have "nat a = nat b" by (metis div_mult_mod_eq)
  with assms show ?thesis by simp
qed

lemma spec_key_inj:
  assumes "0 \<le> a" "a < 100" "0 \<le> b" "b < 100" "spec_key d a = spec_key e b"
  shows "d = e \<and> a = b"
proof -
  have "length (''_'' @ HH a @ '':00 - '' @ HH (a + 1) @ '':00'')
        = length (''_'' @ HH b @ '':00 - '' @ HH (b + 1) @ '':00'')"
    by (simp add: HH_def)
  with assms(5) have "d = e \<and> HH a = HH b"
    unfolding spec_key_def by (simp add: HH_def)
  with assms HH_inj show ?thesis by blast
qed

lemma well_formedE:
  assumes "well_formed s"
  obtains d h where "date s = JStr d" "hour s = JNum h" "0 \<le> h" "h \<le> 23"
  using assms by (auto simp add: well_formed_def split: jsval.splits)

lemma key_inj_well_formed:
  assumes "well_formed s" "well_formed t" "key s = key t"
  shows "date s = date t \<and> hour s = hour t"
proof -
  from assms(1) obtain d h where s: "date s = JStr d" "hour s = JNum h" "0 \<le> h" "h \<le> 23"
    by (rule well_formedE)
  from assms(2) obtain e i where t: "date t = JStr e" "hour t = JNum i" "0 \<le> i" "i \<le> 23"
    by (rule well_formedE)
  from s t assms(3) have "spec_key d h = spec_key e i"
    by (simp add: key_well_formed)
  with s t have "d = e \<and> h = i" by (intro spec_key_inj) auto
  with s t show ?thesis by simp
qed

lemma image_key_card:
  assumes "\<forall>s\<in>set slots. well_formed s"
  shows "card (key ` set slots) = card ((\<lambda>s. (date s, hour s)) ` set slots)"
proof -
  let ?g = "\<lambda>s. (date s, hour s)"
  let ?f = "\<lambda>p. ToString (fst p) @ ''_'' @ padStart 2 CHR ''0'' (ToString (snd p)) @ '':00 - ''
                 @ padStart 2 CHR ''0'' (ToString (plus_one (snd p))) @ '':00''"
  have k: "\<And>s. key s = ?f (?g s)"
    by (simp add: key_def timeRange_def startHour_def endHour_def)
  have "inj_on ?f (?g ` set slots)"
  proof (rule inj_onI)
    fix p q assume "p \<in> ?g ` set slots" "q \<in> ?g ` set slots" and eq: "?f p = ?f q"
    then obtain s t where st: "s \<in> set slots" "t \<in> set slots" "p = ?g s" "q = ?g t" by auto
    with eq have "key s = key t" by (simp only: k)
    with st assms have "date s = date t \<and> hour s = hour t"
      by (intro key_inj_well_formed) auto
    with st show "p = q" by simp
  qed
  then have "card (?f ` ?g ` set slots) = card (?g ` set slots)" by (rule card_image)
  moreover have "?f ` ?g ` set slots = key ` set slots"
    by (simp only: image_image k [symmetric])
  ultimately show ?thesis by simp
qed

text \<open>
  C1 (amended). For a payload of well-formed records the transformation returns a table.
  Every record's key is its date, \<open>_\<close>, and the label \<open>HH:00 - HH:00\<close> of its hour and
  the hour after, and that key is in the table. The table has one entry per distinct pair
  of date and hour among the records; when no two records share date and hour it has
  exactly one entry per record, and each record's key holds that record's booked field.
\<close>

theorem one_entry_per_distinct_record:
  assumes wf: "\<forall>s\<in>set slots. well_formed s"
  shows "key \<lparr>date = JStr ''2024-06-01'', hour = JNum 9, booked = JStr ''yes''\<rparr>
           = ''2024-06-01_09:00 - 10:00''
         \<and> (\<exists>T. convertApiResponse (Some \<lparr>booked_slots = Some (map Object slots)\<rparr>) = Inr T
              \<and> (\<forall>s\<in>set slots. \<exists>d h. date s = JStr d \<and> hour s = JNum h
                     \<and> key s = spec_key d h \<and> spec_key d h \<in> dom T)
              \<and> card (dom T) = card ((\<lambda>s. (date s, hour s)) ` set slots)
              \<and> (distinct (map (\<lambda>s. (date s, hour s)) slots) \<longrightarrow>
                   card (dom T) = length slots
                   \<and> (\<forall>s\<in>set slots. T (key s) = Some (booked s))))"
proof -
  let ?g = "\<lambda>s. (date s, hour s)"
  obtain T where run: "forEach Map.empty (map Object slots) = Inr T"
    using forEach_objects by blast
  then have conv: "convertApiResponse (Some \<lparr>booked_slots = Some (map Object slots)\<rparr>) = Inr T"
    by (simp add: convertApiResponse_def)
  from run have dom: "dom T = key ` set slots" by (simp add: dom_forEach)
  have one: "\<forall>s\<in>set slots. \<exists>d h. date s = JStr d \<and> hour s = JNum h \<and> key s = spec_key d h
               \<and> spec_key d h \<in> dom T"
  proof
    fix s assume s: "s \<in> set slots"
    with wf have "well_formed s" by simp
    then obtain d h where dh: "date s = JStr d" "hour s = JNum h" "0 \<le> h" "h \<le> 23"
      by (rule well_formedE)
    then have "key s = spec_key d h" by (rule key_well_formed)
    moreover from s have "key s \<in> dom T" by (simp only: dom) (rule imageI)
    ultimately show "\<exists>d h. date s = JStr d \<and> hour s = JNum h \<and> key s = spec_key d h
               \<and> spec_key d h \<in> dom T" using dh by auto
  qed
  have two: "card (dom T) = card (?g ` set slots)"
    using wf by (simp only: dom image_key_card)
  have three: "card (dom T) = length slots \<and> (\<forall>s\<in>set slots. T (key s) = Some (booked s))"
    if dist: "distinct (map ?g slots)"
  proof -
    from dist have "card (?g ` set slots) = length slots"
      using distinct_card [of "map ?g slots"] by simp
    with two have len: "card (dom T) = length slots" by simp
    from len dom have "card (set (map key slots)) = length (map key slots)" by simp
    then have "distinct (map key slots)" by (rule card_distinct)
    with run have "\<forall>s\<in>set slots. T (key s) = Some (booked s)"
      by (blast intro: forEach_stored)
    with len show ?thesis by simp
  qed
  have example: "key \<lparr>date = JStr ''2024-06-01'', hour = JNum 9, booked = JStr ''yes''\<rparr>
                   = ''2024-06-01_09:00 - 10:00''"
    by (simp add: key_def timeRange_def startHour_def endHour_def padStart_def dec_int_def
        dec_nat.simps digit_def)
  from example conv one two three show ?thesis by blast
qed

theorem one_entry_per_distinct_record_witness:
  "well_formed \<lparr>date = JStr ''2024-06-01'', hour = JNum 9, booked = JStr ''yes''\<rparr>
   \<and> well_formed \<lparr>date = JStr ''2024-06-02'', hour = JNum 23, booked = JStr ''yes''\<rparr>
   \<and> distinct (map (\<lambda>s. (date s, hour s))
         [\<lparr>date = JStr ''2024-06-01'', hour = JNum 9, booked = JStr ''yes''\<rparr>,
          \<lparr>date = JStr ''2024-06-02'', hour = JNum 23, booked = JStr ''yes''\<rparr>])
   \<and> card (dom (projr (convertApiResponse (Some \<lparr>booked_slots = Some (map Object
         [\<lparr>date = JStr ''2024-06-01'', hour = JNum 9, booked = JStr ''yes''\<rparr>,
          \<lparr>date = JStr ''2024-06-02'', hour = JNum 23, booked = JStr ''yes''\<rparr>])\<rparr>)))) = 2
   \<and> projr (convertApiResponse (Some \<lparr>booked_slots = Some (map Object
         [\<lparr>date = JStr ''2024-06-01'', hour = JNum 9, booked = JStr ''yes''\<rparr>,
          \<lparr>date = JStr ''2024-06-02'', hour = JNum 23, booked = JStr ''yes''\<rparr>])\<rparr>))
        (key \<lparr>date = JStr ''2024-06-01'', hour = JNum 9, booked = JStr ''yes''\<rparr>)
       = Some (JStr ''yes'')"
proof -
  let ?slots = "[\<lparr>date = JStr ''2024-06-01'', hour = JNum 9, booked = JStr ''yes''\<rparr>,
                 \<lparr>date = JStr ''2024-06-02'', hour = JNum 23, booked = JStr ''yes''\<rparr>]"
  have wf: "\<forall>s\<in>set ?slots. well_formed s" by (simp add: well_formed_def)
  have dist: "distinct (map (\<lambda>s. (date s, hour s)) ?slots)" by simp
  from one_entry_per_distinct_record [OF wf] dist
  obtain T where "convertApiResponse (Some \<lparr>booked_slots = Some (map Object ?slots)\<rparr>) = Inr T"
    and "card (dom T) = length ?slots"
    and "\<forall>s\<in>set ?slots. T (key s) = Some (booked s)"
    by blast
  with wf dist show ?thesis by simp
qed

text \<open>
  Two records with the same date and hour share a key: the second overwrites the first,
  and the table of a payload of two records has one entry.
\<close>

theorem one_entry_per_record_counterexample:
  "convertApiResponse (Some \<lparr>booked_slots = Some
      [Object \<lparr>date = JStr ''2024-06-01'', hour = JNum 9, booked = JStr ''Ana''\<rparr>,
       Object \<lparr>date = JStr ''2024-06-01'', hour = JNum 9, booked = JStr ''Budi''\<rparr>]\<rparr>)
     = Inr [''2024-06-01_09:00 - 10:00'' \<mapsto> JStr ''Budi'']
   \<and> card (dom [''2024-06-01_09:00 - 10:00'' \<mapsto> JStr ''Budi'']) = 1
   \<and> length [Object \<lparr>date = JStr ''2024-06-01'', hour = JNum 9, booked = JStr ''Ana''\<rparr>,
              Object \<lparr>date = JStr ''2024-06-01'', hour = JNum 9, booked = JStr ''Budi''\<rparr>] = 2"
  by (simp add: convertApiResponse_def key_def timeRange_def startHour_def endHour_def
      padStart_def dec_int_def dec_nat.simps digit_def)

text \<open>
  C8 (amended). No record is skipped. A record without an hour is stored under its date
  followed by \<open>_undefined:00 - NaN:00\<close>, a record without a date under \<open>undefined_\<close>
  followed by the label of its hour. When every member of the collection is an object, the
  keys of the table are the keys of all the records, each built from its own record alone.
\<close>

theorem missing_field_not_skipped:
  "(\<exists>T. convertApiResponse (Some \<lparr>booked_slots = Some (map Object slots)\<rparr>) = Inr T
       \<and> dom T = key ` set slots \<and> (s \<in> set slots \<longrightarrow> key s \<in> dom T))
   \<and> (hour s = JUndefined \<longrightarrow> key s = ToString (date s) @ ''_undefined:00 - NaN:00'')
   \<and> (date s = JUndefined \<longrightarrow> key s = ''undefined_'' @ timeRange s)"
proof -
  obtain T where run: "forEach Map.empty (map Object slots) = Inr T"
    using forEach_objects by blast
  then have "convertApiResponse (Some \<lparr>booked_slots = Some (map Object slots)\<rparr>) = Inr T"
    by (simp add: convertApiResponse_def)
  moreover from run have "dom T = key ` set slots" by (simp add: dom_forEach)
  ultimately have "\<exists>T. convertApiResponse (Some \<lparr>booked_slots = Some (map Object slots)\<rparr>) = Inr T
       \<and> dom T = key ` set slots \<and> (s \<in> set slots \<longrightarrow> key s \<in> dom T)"
    by blast
  then show ?thesis
    by (simp add: key_def timeRange_def startHour_def endHour_def padStart_def)
qed

theorem missing_field_not_skipped_witness:
  "\<lparr>date = JStr ''2024-06-01'', hour = JUndefined, booked = JStr ''yes''\<rparr>
     \<in> set [\<lparr>date = JStr ''2024-06-01'', hour = JUndefined, booked = JStr ''yes''\<rparr>,
            \<lparr>date = JUndefined, hour = JNum 9, booked = JStr ''yes''\<rparr>]
   \<and> ''2024-06-01_undefined:00 - NaN:00''
     \<in> dom (projr (convertApiResponse (Some \<lparr>booked_slots = Some (map Object
            [\<lparr>date = JStr ''2024-06-01'', hour = JUndefined, booked = JStr ''yes''\<rparr>,
             \<lparr>date = JUndefined, hour = JNum 9, booked = JStr ''yes''\<rparr>])\<rparr>)))"
proof -
  let ?s = "\<lparr>date = JStr ''2024-06-01'', hour = JUndefined, booked = JStr ''yes''\<rparr>"
  let ?slots = "[?s, \<lparr>date = JUndefined, hour = JNum 9, booked = JStr ''yes''\<rparr>]"
  from missing_field_not_skipped [of ?slots ?s]
  obtain T where "convertApiResponse (Some \<lparr>booked_slots = Some (map Object ?slots)\<rparr>) = Inr T"
    and "?s \<in> set ?slots \<longrightarrow> key ?s \<in> dom T"
    and "hour ?s = JUndefined \<longrightarrow> key ?s = ToString (date ?s) @ ''_undefined:00 - NaN:00''"
    by blast
  then show ?thesis by simp
qed

text \<open>
  A payload of two records, one without hour and one without date, yields a table of two
  entries.
\<close>

theorem missing_field_skipped_counterexample:
  "convertApiResponse (Some \<lparr>booked_slots = Some
      [Object \<lparr>date = JStr ''2024-06-01'', hour = JUndefined, booked = JStr ''yes''\<rparr>,
       Object \<lparr>date = JUndefined, hour = JNum 9, booked = JStr ''yes''\<rparr>]\<rparr>)
   = Inr [''2024-06-01_undefined:00 - NaN:00'' \<mapsto> JStr ''yes'',
          ''undefined_09:00 - 10:00'' \<mapsto> JStr ''yes'']"
  by (simp add: convertApiResponse_def key_def timeRange_def startHour_def endHour_def
      padStart_def dec_int_def dec_nat.simps digit_def)

section \<open>Fetching\<close>

text \<open>
  C6. A fetch that fails sets the error to the static message and leaves the lookup table
  as it was; on first load that is the empty table.
\<close>

theorem failed_fetch_keeps_table:
  "error (fetchBookings Rejected st) = Some ''Gagal memuat data booking''
   \<and> bookings (fetchBookings Rejected st) = bookings st
   \<and> bookings (fetchBookings Rejected (initial zone today)) = Map.empty"
  by (simp add: fetchBookings_def catch_def initial_def)

text \<open>
  The same holds when the request succeeds and the transformation throws: the body is
  \<open>null\<close>, or a member of the collection is.
\<close>

lemma unreadable_body_keeps_table:
  assumes "convertApiResponse data = Inl err"
  shows "error (fetchBookings (Resolved data) st) = Some ''Gagal memuat data booking''"
    and "bookings (fetchBookings (Resolved data) st) = bookings st"
  using assms by (simp_all add: fetchBookings_def catch_def)

lemma convertApiResponse_throws:
  "convertApiResponse None = Inl TypeError"
  "Null \<in> set ms \<Longrightarrow> convertApiResponse (Some \<lparr>booked_slots = Some ms\<rparr>) = Inl TypeError"
  by (simp_all add: convertApiResponse_def forEach_throws)

text \<open>
  C7. A fetch is successful when the request resolves and the transformation returns a
  table. After it the lookup table is that table, whatever the state was before (the
  prior table takes no part in it), the error is cleared, and no key of the old table that
  the response does not produce is left.
\<close>

theorem successful_fetch_replaces_table:
  assumes "convertApiResponse data = Inr t"
  shows "bookings (fetchBookings (Resolved data) st) = t
         \<and> bookings (fetchBookings (Resolved data) st') = t
         \<and> error (fetchBookings (Resolved data) st) = None
         \<and> dom (bookings (fetchBookings (Resolved data) st)) \<inter> (dom (bookings st) - dom t) = {}"
  using assms by (auto simp add: fetchBookings_def)

theorem successful_fetch_replaces_table_witness:
  "convertApiResponse (Some \<lparr>booked_slots = Some
       [Object \<lparr>date = JStr ''2024-06-01'', hour = JNum 9, booked = JStr ''yes''\<rparr>]\<rparr>)
     = Inr [''2024-06-01_09:00 - 10:00'' \<mapsto> JStr ''yes'']
   \<and> bookings (fetchBookings (Resolved (Some \<lparr>booked_slots = Some
         [Object \<lparr>date = JStr ''2024-06-01'', hour = JNum 9, booked = JStr ''yes''\<rparr>]\<rparr>))
       ((initial UTC (Day 19875))\<lparr>bookings := [''2024-05-31_10:00 - 11:00'' \<mapsto> JStr ''yes'']\<rparr>))
     = [''2024-06-01_09:00 - 10:00'' \<mapsto> JStr ''yes'']"
proof -
  have conv: "convertApiResponse (Some \<lparr>booked_slots = Some
       [Object \<lparr>date = JStr ''2024-06-01'', hour = JNum 9, booked = JStr ''yes''\<rparr>]\<rparr>)
     = Inr [''2024-06-01_09:00 - 10:00'' \<mapsto> JStr ''yes'']"
    by (simp add: convertApiResponse_def key_def timeRange_def startHour_def endHour_def
        padStart_def dec_int_def dec_nat.simps digit_def)
  from successful_fetch_replaces_table [OF conv] conv show ?thesis by blast
qed

text \<open>
  C9. The transformation is a function of the payload alone: it reads its argument and
  writes a table that starts empty. Two runs on the same payload give the same result (the
  same keys with the same values), a second fetch of the same payload leaves the table of
  the first, and when the loop has built a table, running it once more over the same
  members, onto that table, changes nothing.
\<close>

theorem transformation_idempotent:
  "(let first = convertApiResponse data; second = convertApiResponse data in first = second)
   \<and> bookings (fetchBookings (Resolved data) (fetchBookings (Resolved data) st))
       = bookings (fetchBookings (Resolved data) st)
   \<and> (forEach Map.empty ms = Inr t \<longrightarrow> forEach t ms = Inr t)"
proof -
  have "bookings (fetchBookings (Resolved data) (fetchBookings (Resolved data) st))
          = bookings (fetchBookings (Resolved data) st)"
    by (cases "convertApiResponse data") (simp_all add: fetchBookings_def catch_def Let_def)
  moreover have "forEach Map.empty ms = Inr t \<longrightarrow> forEach t ms = Inr t"
    by (simp add: forEach_again)
  ultimately show ?thesis by simp
qed

theorem transformation_idempotent_witness:
  "forEach Map.empty [Object \<lparr>date = JStr ''2024-06-01'', hour = JNum 9, booked = JStr ''yes''\<rparr>]
     = Inr [''2024-06-01_09:00 - 10:00'' \<mapsto> JStr ''yes'']
   \<and> forEach [''2024-06-01_09:00 - 10:00'' \<mapsto> JStr ''yes'']
       [Object \<lparr>date = JStr ''2024-06-01'', hour = JNum 9, booked = JStr ''yes''\<rparr>]
     = Inr [''2024-06-01_09:00 - 10:00'' \<mapsto> JStr ''yes'']"
proof -
  have run: "forEach Map.empty
       [Object \<lparr>date = JStr ''2024-06-01'', hour = JNum 9, booked = JStr ''yes''\<rparr>]
     = Inr [''2024-06-01_09:00 - 10:00'' \<mapsto> JStr ''yes'']"
    by (simp add: key_def timeRange_def startHour_def endHour_def padStart_def dec_int_def
        dec_nat.simps digit_def)
  from transformation_idempotent
    [of "None" "initial UTC (Day 19875)"
        "[Object \<lparr>date = JStr ''2024-06-01'', hour = JNum 9, booked = JStr ''yes''\<rparr>]"
        "[''2024-06-01_09:00 - 10:00'' \<mapsto> JStr ''yes'']"] run
  show ?thesis by blast
qed

section \<open>Rendering\<close>

text \<open>
  C2. A grid cell is styled reserved exactly when the key built from its day and its time
  is in the lookup table with a truthy value, and available otherwise.
\<close>

theorem reserved_iff_truthy_entry:
  "(cell st d time = Reserved)
     = (\<exists>v. bookings st (format_YYYY_MM_DD d @ ''_'' @ time) = Some v \<and> truthy v)
   \<and> (cell st d time = Available)
     = (\<not> (\<exists>v. bookings st (format_YYYY_MM_DD d @ ''_'' @ time) = Some v \<and> truthy v))"
  by (auto simp add: cell_def isBooked_def getBookingStatus_def getBookingKey_def
      split: option.splits)

text \<open>
  The example of the specification, end to end: after fetching the one record of
  2024-06-01 (day 19875) at hour 9, the column of that day is reserved at
  \<open>09:00 - 10:00\<close> and available in every other row.
\<close>

lemma format_example: "format_YYYY_MM_DD (Day 19875) = ''2024-06-01''"
  by code_simp

lemma example_row:
  "map (cell (fetchBookings (Resolved (Some \<lparr>booked_slots = Some
           [Object \<lparr>date = JStr ''2024-06-01'', hour = JNum 9, booked = JStr ''yes''\<rparr>]\<rparr>)) st)
         (Day 19875)) times
   = [Available, Available, Available, Available, Reserved, Available, Available, Available,
      Available, Available, Available, Available, Available, Available, Available, Available,
      Available, Available, Available, Available, Available, Available]"
proof -
  have "bookings (fetchBookings (Resolved (Some \<lparr>booked_slots = Some
           [Object \<lparr>date = JStr ''2024-06-01'', hour = JNum 9, booked = JStr ''yes''\<rparr>]\<rparr>)) st)
      = [''2024-06-01_09:00 - 10:00'' \<mapsto> JStr ''yes'']"
    by (simp add: fetchBookings_def convertApiResponse_def key_def timeRange_def startHour_def
        endHour_def padStart_def dec_int_def dec_nat.simps digit_def)
  then show ?thesis
    by (simp add: cell_def isBooked_def getBookingStatus_def getBookingKey_def format_example
        times_def del: format_YYYY_MM_DD.simps)
qed

subsection \<open>The hour 23\<close>

text \<open>
  The decimal numerals have no leading zero and consist of digits; with that, the label
  of a stored key cannot be \<open>23:00 - 00:00\<close>: the end hour would have to be \<open>00\<close>,
  which only the hour \<open>-1\<close> gives.
\<close>

lemma set_dec_nat: "set (dec_nat n) \<subseteq> set ''0123456789''"
proof (induction n rule: dec_nat.induct)
  case (1 n)
  have dig: "\<And>k. k < 10 \<Longrightarrow> digit k \<in> set ''0123456789''"
    unfolding digit_def by (rule nth_mem) simp
  show ?case
  proof (cases "n < 10")
    case True
    then show ?thesis using dig [of n] by (simp add: dec_nat.simps [of n])
  next
    case False
    then show ?thesis using 1 dig [of "n mod 10"] by (simp add: dec_nat.simps [of n])
  qed
qed

lemma dec_nat_nonempty: "dec_nat n \<noteq> []"
  by (subst dec_nat.simps) simp

lemma dec_nat_zero: "dec_nat n = ''0'' \<Longrightarrow> n = 0"
proof (cases "n < 10")
  case True
  assume "dec_nat n = ''0''"
  with True have "digit n = digit 0" by (simp add: dec_nat.simps [of n] digit_def)
  with True show ?thesis by (intro digit_inj) simp_all
next
  case False
  assume "dec_nat n = ''0''"
  with False have "dec_nat (n div 10) = []" by (simp add: dec_nat.simps [of n])
  with dec_nat_nonempty show ?thesis by blast
qed

lemma dec_nat_long: "\<not> n < 10 \<Longrightarrow> 2 \<le> length (dec_nat n)"
  using dec_nat_nonempty [of "n div 10"]
  by (cases "dec_nat (n div 10)") (simp_all add: dec_nat.simps [of n])

lemma padStart_dec_int_00:
  assumes "padStart 2 CHR ''0'' (dec_int m) = ''00''"
  shows "m = 0"
proof (cases "m < 0")
  case True
  obtain c w where "dec_nat (nat (- m)) = c # w"
    using dec_nat_nonempty [of "nat (- m)"] by (cases "dec_nat (nat (- m))") auto
  with True assms show ?thesis by (simp add: dec_int_def padStart_def)
next
  case False
  show ?thesis
  proof (cases "nat m < 10")
    case True
    with False assms have "dec_nat (nat m) = ''0''"
      by (simp add: dec_int_def padStart_def dec_nat.simps [of "nat m"])
    then have "nat m = 0" by (rule dec_nat_zero)
    with False show ?thesis by simp
  next
    case big: False
    then have "2 \<le> length (dec_nat (nat m))" by (rule dec_nat_long)
    with False assms have "dec_nat (nat m) = ''00''"
      by (simp add: dec_int_def padStart_def)
    with big have "dec_nat (nat m div 10) = ''0''"
      by (simp add: dec_nat.simps [of "nat m"])
    then have "nat m div 10 = 0" by (rule dec_nat_zero)
    with big show ?thesis by simp
  qed
qed

lemma no_space_dec_int: "CHR '' '' \<notin> set (dec_int m)"
  using set_dec_nat [of "nat m"] set_dec_nat [of "nat (- m)"]
  by (auto simp add: dec_int_def)

lemma endHour_space:
  assumes "CHR '' '' \<in> set (endHour s)"
  shows "last (endHour s) = CHR ''1''"
proof (cases "hour s")
  case JUndefined
  with assms show ?thesis by (simp add: endHour_def padStart_def)
next
  case JNull
  with assms no_space_dec_int [of 1] show ?thesis
    by (simp add: endHour_def padStart_def split: if_splits)
next
  case (JBool b)
  with assms no_space_dec_int [of "if b then 2 else 1"] show ?thesis
    by (simp add: endHour_def padStart_def split: if_splits)
next
  case (JNum n)
  with assms no_space_dec_int [of "n + 1"] show ?thesis
    by (simp add: endHour_def padStart_def split: if_splits)
next
  case JNaN
  with assms show ?thesis by (simp add: endHour_def padStart_def)
next
  case (JStr t)
  then show ?thesis by (simp add: endHour_def padStart_def)
qed

lemma endHour_00:
  assumes "endHour s = ''00''"
  shows "hour s = JNum (- 1)"
proof (cases "hour s")
  case JUndefined
  with assms show ?thesis by (simp add: endHour_def padStart_def)
next
  case JNull
  with assms have "(1::int) = 0" by (intro padStart_dec_int_00) (simp add: endHour_def)
  then show ?thesis by simp
next
  case (JBool b)
  with assms have "(if b then 2 else 1 :: int) = 0"
    by (intro padStart_dec_int_00) (simp add: endHour_def)
  then show ?thesis by (simp split: if_splits)
next
  case (JNum n)
  with assms have "n + 1 = 0" by (intro padStart_dec_int_00) (simp add: endHour_def)
  with JNum show ?thesis by simp
next
  case JNaN
  with assms show ?thesis by (simp add: endHour_def padStart_def)
next
  case (JStr t)
  with assms have "last (padStart 2 CHR ''0'' (t @ ''1'')) = last ''00''"
    by (simp add: endHour_def)
  then show ?thesis by (simp add: padStart_def)
qed

lemma two_last: "2 \<le> length xs \<Longrightarrow> \<exists>ys x y. xs = ys @ [x, y]"
proof (cases xs rule: rev_cases)
  case Nil
  assume "2 \<le> length xs"
  with Nil show ?thesis by simp
next
  case (snoc zs y)
  assume "2 \<le> length xs"
  with snoc obtain ys x where "zs = ys @ [x]" by (cases zs rule: rev_cases) auto
  with snoc show ?thesis by simp
qed

lemma key_never_2300: "key s \<noteq> F @ ''_23:00 - 00:00''"
proof
  assume eq: "key s = F @ ''_23:00 - 00:00''"
  define P where "P = ToString (date s) @ ''_'' @ startHour s @ '':00 - ''"
  define E where "E = endHour s"
  have "(P @ E) @ '':00'' = key s"
    by (simp add: key_def timeRange_def P_def E_def)
  also note eq
  also have "F @ ''_23:00 - 00:00'' = (F @ ''_23:00 - 00'') @ '':00''" by simp
  finally have "(P @ E) @ '':00'' = (F @ ''_23:00 - 00'') @ '':00''" .
  then have 1: "P @ E = F @ ''_23:00 - 00''" by (simp only: append_same_eq)
  have "2 \<le> length E" by (simp add: E_def endHour_def padStart_def)
  then obtain E0 x y where E: "E = E0 @ [x, y]" using two_last by blast
  with 1 have "(P @ E0) @ [x, y] = (F @ ''_23:00 - '') @ ''00''" by simp
  then have 2: "P @ E0 = F @ ''_23:00 - ''" and xy: "[x, y] = ''00''"
    by simp_all
  show False
  proof (cases "E0 = []")
    case True
    with E xy have "endHour s = ''00''" by (simp add: E_def)
    then have "hour s = JNum (- 1)" by (rule endHour_00)
    then have "startHour s = ''-1''"
      by (simp add: startHour_def padStart_def dec_int_def dec_nat.simps digit_def)
    with 2 True have "ToString (date s) @ ''_-1:00 - '' = F @ ''_23:00 - ''"
      by (simp add: P_def)
    then show False by simp
  next
    case False
    then obtain E1 z where E0: "E0 = E1 @ [z]" by (cases E0 rule: rev_cases) auto
    with 2 have "(P @ E1) @ [z] = (F @ ''_23:00 -'') @ '' ''" by simp
    then have "z = CHR '' ''" by simp
    with E E0 have "CHR '' '' \<in> set (endHour s)" by (simp add: E_def)
    then have "last (endHour s) = CHR ''1''" by (rule endHour_space)
    with E xy show False by (simp add: E_def)
  qed
qed

lemma times_length: "time \<in> set times \<Longrightarrow> length time = 13"
  by (auto simp add: times_def)

lemma convertApiResponse_never_2300:
  assumes "convertApiResponse data = Inr t"
  shows "t (F @ ''_23:00 - 00:00'') = None"
proof (cases data)
  case None
  with assms show ?thesis by (simp add: convertApiResponse_def)
next
  case (Some body)
  show ?thesis
  proof (cases "booked_slots body")
    case None
    with Some assms show ?thesis by (auto simp add: convertApiResponse_def)
  next
    case (Some ms)
    with \<open>data = Some body\<close> assms have run: "forEach Map.empty ms = Inr t"
      by (simp add: convertApiResponse_def)
    then obtain slots where ms: "ms = map Object slots" using forEach_Inr by blast
    have "F @ ''_23:00 - 00:00'' \<notin> key ` set slots"
    proof
      assume "F @ ''_23:00 - 00:00'' \<in> key ` set slots"
      then obtain s where "key s = F @ ''_23:00 - 00:00''" by auto
      with key_never_2300 show False by blast
    qed
    with run ms have "t (F @ ''_23:00 - 00:00'') = Map.empty (F @ ''_23:00 - 00:00'')"
      by (intro forEach_other) simp_all
    then show ?thesis by simp
  qed
qed

text \<open>Fetching, whatever its outcome, keeps the table free of such keys.\<close>

lemma fetch_keeps_2300_free:
  assumes "\<forall>F. bookings st (F @ ''_23:00 - 00:00'') = None"
  shows "\<forall>F. bookings (fetchBookings r st) (F @ ''_23:00 - 00:00'') = None"
proof (cases r)
  case Rejected
  with assms show ?thesis by (simp add: fetchBookings_def catch_def)
next
  case (Resolved data)
  show ?thesis
  proof (cases "convertApiResponse data")
    case (Inl err)
    with Resolved assms show ?thesis by (simp add: fetchBookings_def catch_def)
  next
    case (Inr t)
    then have "\<forall>F. t (F @ ''_23:00 - 00:00'') = None"
      by (simp add: convertApiResponse_never_2300)
    with Resolved Inr show ?thesis by (simp add: fetchBookings_def)
  qed
qed

lemma fold_fetch_2300_free:
  assumes "\<forall>F. bookings st (F @ ''_23:00 - 00:00'') = None"
  shows "\<forall>F. bookings (fold fetchBookings rs st) (F @ ''_23:00 - 00:00'') = None"
  using assms
proof (induction rs arbitrary: st)
  case Nil
  then show ?case by simp
next
  case (Cons r rs)
  from Cons.prems have "\<forall>F. bookings (fetchBookings r st) (F @ ''_23:00 - 00:00'') = None"
    by (rule fetch_keeps_2300_free)
  then show ?case by (simp add: Cons.IH)
qed

text \<open>
  C3. A record with hour 23 is stored under its date followed by \<open>_23:00 - 24:00\<close>. The
  time-slot list labels that hour \<open>23:00 - 00:00\<close>, and the key of no grid cell, of
  whatever day, equals the stored key. No record at all is stored under a key that ends
  in \<open>_23:00 - 00:00\<close>, so the cell of that time slot is styled available on every day,
  in every state that the component reaches from its mount through any sequence of
  fetches, failed or successful.
\<close>

theorem hour_23_never_reserved:
  "key \<lparr>date = JStr d, hour = JNum 23, booked = b\<rparr> = d @ ''_23:00 - 24:00''
   \<and> ''23:00 - 00:00'' \<in> set times
   \<and> (\<forall>time\<in>set times. getBookingKey dy time \<noteq> d @ ''_23:00 - 24:00'')
   \<and> cell (fold fetchBookings rs (initial zone today)) dy ''23:00 - 00:00'' = Available"
proof -
  have one: "key \<lparr>date = JStr d, hour = JNum 23, booked = b\<rparr> = d @ ''_23:00 - 24:00''"
    by (simp add: key_def timeRange_def startHour_def endHour_def padStart_def dec_int_def
        dec_nat.simps digit_def)
  have two: "''23:00 - 00:00'' \<in> set times" by (simp add: times_def)
  have three: "\<forall>time\<in>set times. getBookingKey dy time \<noteq> d @ ''_23:00 - 24:00''"
  proof
    fix time assume t: "time \<in> set times"
    then have len: "length time = 13" by (rule times_length)
    show "getBookingKey dy time \<noteq> d @ ''_23:00 - 24:00''"
    proof
      assume "getBookingKey dy time = d @ ''_23:00 - 24:00''"
      then have "format_YYYY_MM_DD dy @ (CHR ''_'' # time) = d @ (CHR ''_'' # ''23:00 - 24:00'')"
        by (simp add: getBookingKey_def)
      with len have "time = ''23:00 - 24:00''" by simp
      with t show False by (simp add: times_def)
    qed
  qed
  have "\<forall>F. bookings (initial zone today) (F @ ''_23:00 - 00:00'') = None"
    by (simp add: initial_def)
  then have "\<forall>F. bookings (fold fetchBookings rs (initial zone today)) (F @ ''_23:00 - 00:00'') = None"
    by (rule fold_fetch_2300_free)
  then have four: "cell (fold fetchBookings rs (initial zone today)) dy ''23:00 - 00:00'' = Available"
    by (simp add: cell_def isBooked_def getBookingStatus_def getBookingKey_def)
  from one two three four show ?thesis by blast
qed

theorem hour_23_never_reserved_witness:
  "''23:00 - 00:00'' \<in> set times
   \<and> key \<lparr>date = JStr ''2024-06-01'', hour = JNum 23, booked = JStr ''yes''\<rparr>
       = ''2024-06-01_23:00 - 24:00''
   \<and> getBookingKey (Day 19875) ''23:00 - 00:00'' \<noteq> ''2024-06-01_23:00 - 24:00''
   \<and> cell (fold fetchBookings
              [Rejected, Resolved (Some \<lparr>booked_slots = Some
                [Object \<lparr>date = JStr ''2024-06-01'', hour = JNum 23, booked = JStr ''yes''\<rparr>]\<rparr>)]
              (initial UTC (Day 19875))) (Day 19875) ''23:00 - 00:00'' = Available"
proof -
  note h = hour_23_never_reserved [of "''2024-06-01''" "JStr ''yes''" "Day 19875"
      "[Rejected, Resolved (Some \<lparr>booked_slots = Some
          [Object \<lparr>date = JStr ''2024-06-01'', hour = JNum 23, booked = JStr ''yes''\<rparr>]\<rparr>)]"
      "UTC" "Day 19875"]
  have t: "''23:00 - 00:00'' \<in> set times" by (simp add: times_def)
  from h t have "getBookingKey (Day 19875) ''23:00 - 00:00'' \<noteq> ''2024-06-01'' @ ''_23:00 - 24:00''"
    by blast
  with h t show ?thesis by simp
qed

section \<open>The fixed time slots\<close>

text \<open>
  C10. The time-slot list is a constant of 22 distinct hourly ranges: the hours 5 to 11,
  then 14 to 23, then 0 to 4, each labelled with its start and the following hour (the
  hour after 23 being 00). The two ranges from 12:00 to 14:00 are not in it, and after
  \<open>23:00 - 00:00\<close> it goes on with \<open>00:00 - 01:00\<close> up to \<open>04:00 - 05:00\<close>.
\<close>

theorem times_fixed:
  "length times = 22 \<and> distinct times
   \<and> ''12:00 - 13:00'' \<notin> set times \<and> ''13:00 - 14:00'' \<notin> set times
   \<and> times = map (\<lambda>h. HH h @ '':00 - '' @ HH ((h + 1) mod 24) @ '':00'')
               ([5..11] @ [14..23] @ [0..4])
   \<and> drop 16 times = [''23:00 - 00:00'', ''00:00 - 01:00'', ''01:00 - 02:00'',
                       ''02:00 - 03:00'', ''03:00 - 04:00'', ''04:00 - 05:00'']"
  by (simp add: times_def HH_def digit_def upto.simps)

section \<open>The day sequence\<close>

lemma absFloor_days:
  assumes "0 \<le> t" "t < MILLISECONDS_A_DAY"
  shows "0 \<le> n \<Longrightarrow> absFloor (n * MILLISECONDS_A_DAY + t) MILLISECONDS_A_DAY = n"
    and "n < 0 \<Longrightarrow> absFloor (n * MILLISECONDS_A_DAY - t) MILLISECONDS_A_DAY = n"
proof -
  have pos: "0 < MILLISECONDS_A_DAY" by (simp add: MILLISECONDS_A_DAY_def)
  have whole: "(k * MILLISECONDS_A_DAY + t) div MILLISECONDS_A_DAY = k" for k
    using assms pos by (simp add: div_pos_pos_trivial)
  show "0 \<le> n \<Longrightarrow> absFloor (n * MILLISECONDS_A_DAY + t) MILLISECONDS_A_DAY = n"
  proof -
    assume n: "0 \<le> n"
    with pos have "0 \<le> n * MILLISECONDS_A_DAY" by simp
    with assms have "\<not> n * MILLISECONDS_A_DAY + t < 0" by linarith
    then show ?thesis by (simp only: absFloor_def if_False whole)
  qed
  show "n < 0 \<Longrightarrow> absFloor (n * MILLISECONDS_A_DAY - t) MILLISECONDS_A_DAY = n"
  proof -
    assume n: "n < 0"
    with pos have "n * MILLISECONDS_A_DAY < 0" by (simp add: mult_neg_pos)
    with assms have neg: "n * MILLISECONDS_A_DAY - t < 0" by simp
    have eq: "- (n * MILLISECONDS_A_DAY - t) = (- n) * MILLISECONDS_A_DAY + t" by simp
    have "(- (n * MILLISECONDS_A_DAY - t)) div MILLISECONDS_A_DAY = - n"
      by (subst eq) (rule whole)
    with neg show ?thesis by (simp only: absFloor_def if_True minus_minus)
  qed
qed

text \<open>
  The length of the sequence is the whole number of days from the wall-clock time of the
  start to that of the end, rounded toward zero, plus one; nothing is thrown.
\<close>

lemma dates_length:
  assumes "in_range a" "in_range b"
  shows "\<exists>ds. dates zone (At a) (At b) = Inr ds
           \<and> int (length ds) = max 0 (absFloor (b - a) MILLISECONDS_A_DAY + 1)
           \<and> (\<forall>i<length ds. ds ! i = add zone (At a) i)"
proof -
  let ?n = "absFloor (b - a) MILLISECONDS_A_DAY + 1"
  have "\<bar>b - a\<bar> \<le> 17280000000000000" using assms unfolding in_range_def by linarith
  then have "\<bar>absFloor (b - a) MILLISECONDS_A_DAY\<bar> \<le> 200000000"
    by (auto simp add: absFloor_def MILLISECONDS_A_DAY_def)
  then have len: "ToLength (Some ?n) = max 0 ?n" and small: "\<not> max 0 ?n > 4294967295"
    by (simp_all add: ToLength_def)
  then have "dates zone (At a) (At b) = Inr (map (add zone (At a)) [0..<nat (max 0 ?n)])"
    by (simp add: dates_def Array_from_def)
  then show ?thesis by simp
qed

text \<open>
  Where both days begin at 00:00 and the zone leaves the midnights between them alone, the
  sequence is the days from start to end in ascending order, \<open>end - start + 1\<close> of
  them, and it is empty for an end before the start.
\<close>

lemma dates_of_midnights:
  assumes "in_range (s * MILLISECONDS_A_DAY)" "in_range (e * MILLISECONDS_A_DAY)" "s \<le> e"
    and zone: "\<And>d. s \<le> d \<Longrightarrow> d \<le> e \<Longrightarrow> zone (d * MILLISECONDS_A_DAY) = d * MILLISECONDS_A_DAY"
  shows "dates zone (Day s) (Day e) = Inr (map (\<lambda>i. Day (s + int i)) [0..<nat (e - s + 1)])"
proof -
  have n: "absFloor (e * MILLISECONDS_A_DAY - s * MILLISECONDS_A_DAY) MILLISECONDS_A_DAY = e - s"
    using absFloor_days(1) [of 0 "e - s"] assms(3)
    by (simp add: MILLISECONDS_A_DAY_def algebra_simps)
  have len: "ToLength (Some (e - s + 1)) = e - s + 1"
    using assms by (simp add: ToLength_def in_range_def MILLISECONDS_A_DAY_def)
  have small: "\<not> e - s + 1 > 4294967295"
    using assms by (simp add: in_range_def MILLISECONDS_A_DAY_def)
  have "add zone (Day s) i = Day (s + int i)" if "i < nat (e - s + 1)" for i
  proof -
    from that have d: "s \<le> s + int i" "s + int i \<le> e" by simp_all
    then have "zone ((s + int i) * MILLISECONDS_A_DAY) = (s + int i) * MILLISECONDS_A_DAY"
      by (rule zone)
    moreover from d assms have "in_range ((s + int i) * MILLISECONDS_A_DAY)"
      by (simp add: in_range_def MILLISECONDS_A_DAY_def)
    ultimately show ?thesis by (simp add: Day_def mk_def algebra_simps)
  qed
  then have "map (\<lambda>index. add zone (Day s) index) [0..<nat (e - s + 1)]
             = map (\<lambda>i. Day (s + int i)) [0..<nat (e - s + 1)]"
    by simp
  with n len small show ?thesis by (simp add: dates_def Array_from_def Day_def)
qed

lemma before_Day: "before (Day a) (Day b) = (a < b)"
  by (simp add: Day_def MILLISECONDS_A_DAY_def)

lemma days_ascending: "sorted_wrt before (map (\<lambda>i. Day (s + int i)) [0..<n])"
  by (simp add: sorted_wrt_map sorted_wrt_iff_nth_less before_Day)

lemma dates_of_inverted_midnights:
  assumes "e < s"
  shows "dates zone (Day s) (Day e) = Inr []" and "grid st [] = replicate (length times) []"
proof -
  have "absFloor (e * MILLISECONDS_A_DAY - s * MILLISECONDS_A_DAY) MILLISECONDS_A_DAY = e - s"
    using absFloor_days(2) [of 0 "e - s"] assms
    by (simp add: MILLISECONDS_A_DAY_def algebra_simps)
  with assms show "dates zone (Day s) (Day e) = Inr []"
    by (simp add: dates_def Array_from_def ToLength_def Day_def)
  show "grid st [] = replicate (length times) []"
    by (simp add: grid_def map_replicate_const)
qed

text \<open>
  C4. For a start no later than the end the specification gives the sequence
  \<open>end - start + 1\<close> entries, three from 2024-04-26 to 2024-04-28. Where the clock
  skips midnight on 2024-04-26, as that of Africa/Cairo does, \<open>dayjs("2024-04-26")\<close> is
  01:00 of that day. To 00:00 on 2024-04-28 it is 47 hours, which \<open>diff\<close> rounds down to
  one day, and the sequence of the code has the two entries 2024-04-26 and 2024-04-27.
\<close>

theorem dates_short_after_skipped_midnight:
  "format_YYYY_MM_DD (dayjs_date (skip (19839 * 86400000) 3600000) 19839) = ''2024-04-26''
   \<and> format_YYYY_MM_DD (dayjs_date (skip (19839 * 86400000) 3600000) 19841) = ''2024-04-28''
   \<and> diff (dayjs_date (skip (19839 * 86400000) 3600000) 19841)
          (dayjs_date (skip (19839 * 86400000) 3600000) 19839) = Some 1
   \<and> map_sum id (map format_YYYY_MM_DD)
        (dates (skip (19839 * 86400000) 3600000)
           (dayjs_date (skip (19839 * 86400000) 3600000) 19839)
           (dayjs_date (skip (19839 * 86400000) 3600000) 19841))
      = Inr [''2024-04-26'', ''2024-04-27'']"
  by code_simp

text \<open>
  C5. For an end before the start the specification gives the sequence no entry. Where
  the clock skips midnight on 2024-04-26, the end 2024-04-26 is 01:00 of that day, 23
  hours before the start 2024-04-27; \<open>diff\<close> rounds that to zero days, and the sequence
  of the code has the one entry 2024-04-27: the grid has a day column. Nothing is thrown.
\<close>

theorem inverted_range_one_column_after_skipped_midnight:
  "format_YYYY_MM_DD (dayjs_date (skip (19839 * 86400000) 3600000) 19840) = ''2024-04-27''
   \<and> format_YYYY_MM_DD (dayjs_date (skip (19839 * 86400000) 3600000) 19839) = ''2024-04-26''
   \<and> diff (dayjs_date (skip (19839 * 86400000) 3600000) 19839)
          (dayjs_date (skip (19839 * 86400000) 3600000) 19840) = Some 0
   \<and> map_sum id (map format_YYYY_MM_DD)
        (dates (skip (19839 * 86400000) 3600000)
           (dayjs_date (skip (19839 * 86400000) 3600000) 19840)
           (dayjs_date (skip (19839 * 86400000) 3600000) 19839))
      = Inr [''2024-04-27'']"
  by code_simp

end
